theory Spec2Isabelle
  imports Complex_Main "HOL-Library.AList"
begin

section \<open>Data model\<close>

text \<open>
  The module under verification is \<^verbatim>\<open>src/veux/__init__.py\<close>: the functions \<^verbatim>\<open>serve\<close>,
  \<^verbatim>\<open>_create_canvas\<close> and \<^verbatim>\<open>render\<close>. Python values that the module only carries around are
  leaves; a Python \<^verbatim>\<open>dict\<close> with string keys is an association list in insertion order.
  A float is an opaque constant here: the module never computes with one.
\<close>

datatype pyval = PyNone | PyBool bool | PyInt int | PyFloat real | PyStr string | PyObj nat

datatype 'a cfg = Leaf 'a | Sect "(string \<times> 'a cfg) list"

type_synonym 'a dict = "(string \<times> 'a cfg) list"

text \<open>The exceptions the module raises itself, and those of the Python runtime it can run into.\<close>

datatype error =
    RenderError string
  | ValueError string
  | KeyError string
  | TypeError string
  | NameError string
  | UnboundLocalError string
  | MalformedKey string
  | ExternalError string

text \<open>A dict has each key once, at every level of nesting.\<close>

fun is_dict :: "'a dict \<Rightarrow> bool" where
  "is_dict [] = True"
| "is_dict ((k, Sect v) # conf) = (k \<notin> fst ` set conf \<and> is_dict v \<and> is_dict conf)"
| "is_dict ((k, Leaf x) # conf) = (k \<notin> fst ` set conf \<and> is_dict conf)"

section \<open>Configuration merge\<close>

text \<open>
  Modelled from the spec: \<^verbatim>\<open>apply_config\<close> is imported from \<^verbatim>\<open>veux/config.py\<close>, which is
  not among the sources. The spec (4.1) gives \<^verbatim>\<open>merge(destination, source)\<close>: for each key in
  the source, if both destination and source hold a nested section at that key, merge
  recursively; otherwise the source value replaces the destination's value at that key,
  whatever the types; keys present only in the destination are retained; merging never
  raises. The argument order is the one of the call sites, \<^verbatim>\<open>apply_config(source, config)\<close>,
  and the mutated destination is returned.
\<close>

fun apply_config :: "'a dict \<Rightarrow> 'a dict \<Rightarrow> 'a dict" where
  "apply_config [] opts = opts"
| "apply_config ((k, Sect v) # conf) opts =
     apply_config conf
       (AList.update k
          (case map_of opts k of
             Some (Sect d) \<Rightarrow> Sect (apply_config v d)
           | _ \<Rightarrow> Sect v) opts)"
| "apply_config ((k, Leaf x) # conf) opts = apply_config conf (AList.update k (Leaf x) opts)"

text \<open>
  \<open>absorbs opts conf\<close>: every leaf of \<open>conf\<close> is already in \<open>opts\<close> at the same path, and
  every section of \<open>conf\<close> is a section of \<open>opts\<close>. Used to state what a merge leaves behind.
\<close>

fun absorbs :: "'a dict \<Rightarrow> 'a dict \<Rightarrow> bool" where
  "absorbs opts [] = True"
| "absorbs opts ((k, Sect v) # conf) =
     ((case map_of opts k of Some (Sect d) \<Rightarrow> absorbs d v | _ \<Rightarrow> False) \<and> absorbs opts conf)"
| "absorbs opts ((k, Leaf x) # conf) = (map_of opts k = Some (Leaf x) \<and> absorbs opts conf)"

section \<open>Building the settings value in \<^verbatim>\<open>render\<close>\<close>

text \<open>
  What \<^verbatim>\<open>render\<close> reads of the model data: the embedded \<^verbatim>\<open>"RendererConfiguration"\<close> entry
  when the key is present, and whether the key \<^verbatim>\<open>"Displacements"\<close> is present.
\<close>

record model_data =
  RendererConfiguration :: "pyval dict option"
  Displacements :: bool

definition getitem :: "'a dict \<Rightarrow> string \<Rightarrow> error + 'a cfg" where
  "getitem d k = (case map_of d k of None \<Rightarrow> Inl (KeyError k) | Some v \<Rightarrow> Inr v)"

text \<open>
  Lines 186 to 192 of \<^verbatim>\<open>render\<close>. \<open>Config\<close> is the value of \<^verbatim>\<open>Config()\<close>, the defaults, defined
  in the absent \<^verbatim>\<open>veux/config.py\<close> and taken as a parameter.
  \<^verbatim>\<open>
    config = Config()
    if "RendererConfiguration" in model_data:
        apply_config(model_data["RendererConfiguration"], config)
    config["artist_config"]["vertical"] = vertical
    apply_config(opts, config)
  \<close>
  The item assignment raises \<^verbatim>\<open>KeyError\<close> when there is no \<^verbatim>\<open>"artist_config"\<close> entry and
  \<^verbatim>\<open>TypeError\<close> when the entry is not a section.
\<close>

definition render_config :: "pyval dict \<Rightarrow> model_data \<Rightarrow> pyval \<Rightarrow> pyval dict \<Rightarrow> error + pyval dict" where
  "render_config Config model_data vertical opts =
     (let config = (case RendererConfiguration model_data of
                      None \<Rightarrow> Config
                    | Some rc \<Rightarrow> apply_config rc Config)
      in case map_of config ''artist_config'' of
           None \<Rightarrow> Inl (KeyError ''artist_config'')
         | Some (Leaf x) \<Rightarrow> Inl (TypeError ''object does not support item assignment'')
         | Some (Sect a) \<Rightarrow>
             Inr (apply_config opts
                   (AList.update ''artist_config''
                      (Sect (AList.update ''vertical'' (Leaf vertical) a)) config)))"

section \<open>Visibility directives\<close>

datatype action = Show | Hide

text \<open>
  A visibility key is \<^verbatim>\<open><sketch>:<attribute-path>\<close> or a bare \<^verbatim>\<open><sketch>\<close>. A key with no
  sketch component does not parse.
\<close>

definition parse_key :: "string \<Rightarrow> error + string \<times> string option" where
  "parse_key key =
     (let sketch = takeWhile (\<lambda>c. c \<noteq> CHR '':'') key;
          rest = dropWhile (\<lambda>c. c \<noteq> CHR '':'') key
      in if sketch = [] then Inl (MalformedKey key)
         else Inr (sketch, case rest of [] \<Rightarrow> None | c # attr \<Rightarrow> Some attr))"

text \<open>
  A visibility flag is stored in the artist section under its key: \<open>PyBool True\<close> is shown,
  \<open>PyBool False\<close> is hidden, anything else (or no entry) is unset.
\<close>

fun is_flag :: "pyval cfg \<Rightarrow> bool" where
  "is_flag (Leaf (PyBool b)) = True"
| "is_flag v = False"

definition sibling_of :: "string \<Rightarrow> string \<Rightarrow> string \<Rightarrow> bool" where
  "sibling_of sketch key k =
     (k \<noteq> key \<and> (case parse_key k of Inr (s, Some a) \<Rightarrow> s = sketch | _ \<Rightarrow> False))"

definition has_state :: "pyval dict \<Rightarrow> string \<Rightarrow> pyval cfg \<Rightarrow> bool" where
  "has_state items sketch v =
     (is_flag v \<or> (case map_of items sketch of Some w \<Rightarrow> is_flag w | None \<Rightarrow> False))"

text \<open>
  Modelled from the spec: \<^verbatim>\<open>sketch_show\<close> is imported from \<^verbatim>\<open>veux/parser.py\<close>, which is not
  among the sources. The spec (4.2) gives \<^verbatim>\<open>resolve(settings, key, action, exclusive, preserve)\<close>:
  (1) parse the key, an unparsable key being an error; (2) set the flag of the exact key to
  the action; (3) if exclusive, every other key with the same sketch prefix that has an
  explicit state (a flag of its own) or a default state (its sketch has a flag), and that is
  not in the preserve set, gets the complement of the action; (4) an exclusive call then adds
  the key to the preserve set; (5) a non-exclusive call does steps 1 and 2 only. The settings
  argument is the artist section; the new section and the new preserve set are returned.
\<close>

definition sketch_show ::
  "pyval cfg \<Rightarrow> string \<Rightarrow> action \<Rightarrow> bool \<Rightarrow> string set \<Rightarrow> error + pyval cfg \<times> string set" where
  "sketch_show config key what exclusive preserve =
     (case parse_key key of
        Inl e \<Rightarrow> Inl e
      | Inr (sketch, attr) \<Rightarrow>
          (case config of
             Leaf x \<Rightarrow> Inl (TypeError ''artist section is not a mapping'')
           | Sect items \<Rightarrow>
               (let items1 = AList.update key (Leaf (PyBool (what = Show))) items
                in if exclusive
                   then Inr (Sect (map (\<lambda>(k, v).
                                     if sibling_of sketch key k \<and> has_state items1 sketch v \<and> k \<notin> preserve
                                     then (k, Leaf (PyBool (what \<noteq> Show))) else (k, v)) items1),
                             insert key preserve)
                   else Inr (Sect items1, preserve))))"

datatype flag = Shown | Hidden | Unset

definition flag_of :: "pyval cfg \<Rightarrow> string \<Rightarrow> flag" where
  "flag_of config key =
     (case config of
        Leaf x \<Rightarrow> Unset
      | Sect items \<Rightarrow>
          (case map_of items key of
             Some (Leaf (PyBool b)) \<Rightarrow> (if b then Shown else Hidden)
           | _ \<Rightarrow> Unset))"

definition bindE :: "error + 'a \<Rightarrow> ('a \<Rightarrow> error + 'b) \<Rightarrow> error + 'b" where
  "bindE m f = (case m of Inl e \<Rightarrow> Inl e | Inr x \<Rightarrow> f x)"

section \<open>The directive phase of \<^verbatim>\<open>render\<close>\<close>

text \<open>
  The resolver is a parameter of the model of \<^verbatim>\<open>render\<close>: it receives the artist section,
  the key, the action, the exclusive flag and the contents of the preserve set (empty when
  the argument is left out), and returns the mutated section and set, or raises.
\<close>

type_synonym resolver =
  "pyval cfg \<Rightarrow> string \<Rightarrow> action \<Rightarrow> bool \<Rightarrow> string set \<Rightarrow> error + pyval cfg \<times> string set"

text \<open>
  One entry per call of the resolver: its arguments, the preserve set by the address of
  the set object (\<open>None\<close> when the argument is left out).
\<close>

datatype call = Call (call_key: string) (call_what: action) (call_exclusive: bool)
  (call_preserve: "nat option")

text \<open>
  The state of the directive phase: the settings value, the store of the set objects made
  by \<^verbatim>\<open>set()\<close> in order of creation (the address of a set is its index), and the calls of
  the resolver made so far.
\<close>

record dstate =
  settings :: "pyval dict"
  sets :: "string set list"
  calls :: "call list"

definition new_set :: "dstate \<Rightarrow> nat \<times> dstate" where
  "new_set st = (length (sets st), st\<lparr>sets := sets st @ [{}]\<rparr>)"

text \<open>
  \<^verbatim>\<open>sketch_show(config["artist_config"], key, what, exclusive=..., preserve=...)\<close>: the section
  and the set are mutated in place, which the model writes back.
\<close>

definition call_sketch_show ::
  "resolver \<Rightarrow> string \<Rightarrow> action \<Rightarrow> bool \<Rightarrow> nat option \<Rightarrow> dstate \<Rightarrow> error + dstate" where
  "call_sketch_show rs key what excl p st =
     (case getitem (settings st) ''artist_config'' of
        Inl e \<Rightarrow> Inl e
      | Inr artist \<Rightarrow>
          (case rs artist key what excl (case p of None \<Rightarrow> {} | Some a \<Rightarrow> sets st ! a) of
             Inl e \<Rightarrow> Inl e
           | Inr (artist', P) \<Rightarrow>
               Inr (st\<lparr>settings := AList.update ''artist_config'' artist' (settings st),
                       sets := (case p of None \<Rightarrow> sets st | Some a \<Rightarrow> (sets st)[a := P]),
                       calls := calls st @ [Call key what excl p]\<rparr>)))"

text \<open>
  \<^verbatim>\<open>for arg in args: sketch_show(config["artist_config"], f"{sketch}:{arg}", what,
  exclusive=True, preserve=preserve)\<close>
\<close>

fun show_each :: "resolver \<Rightarrow> string \<Rightarrow> action \<Rightarrow> nat \<Rightarrow> string list \<Rightarrow> dstate \<Rightarrow> error + dstate" where
  "show_each rs sketch what p [] st = Inr st"
| "show_each rs sketch what p (arg # args) st =
     (case call_sketch_show rs (sketch @ '':'' @ arg) what True (Some p) st of
        Inl e \<Rightarrow> Inl e
      | Inr st' \<Rightarrow> show_each rs sketch what p args st')"

text \<open>
  Lines 196 to 200, 201 to 204 and 206 to 210: one block per directive list, each starting
  with \<^verbatim>\<open>preserve = set()\<close>.
\<close>

definition reference_block :: "resolver \<Rightarrow> string list option \<Rightarrow> dstate \<Rightarrow> error + dstate" where
  "reference_block rs reference st =
     (case reference of
        None \<Rightarrow> Inr st
      | Some args \<Rightarrow>
          (let (p, st1) = new_set st
           in bindE (call_sketch_show rs ''reference'' Show False None st1)
                (show_each rs ''reference'' Show p args)))"

definition displaced_block :: "resolver \<Rightarrow> string list option \<Rightarrow> dstate \<Rightarrow> error + dstate" where
  "displaced_block rs displaced st =
     (case displaced of
        None \<Rightarrow> Inr st
      | Some args \<Rightarrow> (let (p, st1) = new_set st in show_each rs ''displaced'' Show p args st1))"

definition hide_block :: "resolver \<Rightarrow> string list option \<Rightarrow> dstate \<Rightarrow> error + dstate" where
  "hide_block rs hide st =
     (case hide of
        None \<Rightarrow> Inr st
      | Some args \<Rightarrow> (let (p, st1) = new_set st in show_each rs ''reference'' Hide p args st1))"

text \<open>
  Lines 193 to 210.
  \<^verbatim>\<open>
    if show is not None and reference is None and displaced is None:
        reference = show
  \<close>
\<close>

definition render_directives ::
  "resolver \<Rightarrow> string list option \<Rightarrow> string list option \<Rightarrow> string list option \<Rightarrow>
   string list option \<Rightarrow> dstate \<Rightarrow> error + dstate" where
  "render_directives rs show hide displaced reference st =
     (let reference = (if show \<noteq> None \<and> reference = None \<and> displaced = None
                       then show else reference)
      in bindE (reference_block rs reference st)
           (\<lambda>st1. bindE (displaced_block rs displaced st1) (hide_block rs hide)))"

section \<open>Canvas selection\<close>

datatype canvas =
    MatplotlibCanvas "pyval cfg"
  | PlotlyCanvas "pyval cfg"
  | GltfLibCanvas "pyval cfg"
  | TrimeshCanvas "pyval cfg"
  | Given "pyval cfg"

text \<open>
  \<^verbatim>\<open>_create_canvas(name=None, config=None)\<close>. The four canvas classes are external; each
  is a constructor applied to the \<^verbatim>\<open>config\<close> argument. \<open>Given name\<close> is the \<^verbatim>\<open>name\<close> argument
  itself, returned as it came.
\<close>

definition create_canvas :: "pyval cfg \<Rightarrow> pyval cfg \<Rightarrow> error + canvas" where
  "create_canvas name config =
     (let name = (if name = Leaf PyNone then Leaf (PyStr ''gltf'') else name)
      in case name of
           Leaf (PyStr s) \<Rightarrow>
             (if s = ''matplotlib'' then Inr (MatplotlibCanvas config)
              else if s = ''plotly'' then Inr (PlotlyCanvas config)
              else if s = ''gltf'' then Inr (GltfLibCanvas config)
              else if s = ''trimesh'' then Inr (TrimeshCanvas config)
              else Inl (ValueError (''Unknown canvas name '' @ s)))
         | _ \<Rightarrow> Inr (Given name))"

section \<open>Serving\<close>





section \<open>The whole of \<^verbatim>\<open>render\<close>\<close>

datatype sam_file =
    SamNone
  | SamPath string
  | SamModel nat
  | SamStream nat
  | SamTuple
  | SamDict model_data
  | SamOther nat

text \<open>
  The collaborators outside the module: the defaults \<^verbatim>\<open>Config()\<close>, the resolver
  \<^verbatim>\<open>sketch_show\<close>, and the readers \<^verbatim>\<open>veux.model.read_model\<close>, \<^verbatim>\<open>sam_file.asdict\<close> and
  \<^verbatim>\<open>veux.model.FrameModel\<close>.
\<close>

record env =
  Config :: "pyval dict"
  resolve :: resolver
  read_model :: "sam_file \<Rightarrow> error + model_data"
  asdict :: "nat \<Rightarrow> error + model_data"
  FrameModel :: "nat \<Rightarrow> error + model_data"

text \<open>
  Lines 159 to 183. A tuple falls through \<^verbatim>\<open>pass\<close> and leaves \<^verbatim>\<open>model_data\<close> unbound, which
  line 188 then reads.
\<close>

definition load_model :: "env \<Rightarrow> sam_file \<Rightarrow> error + model_data" where
  "load_model ext sam_file =
     (case sam_file of
        SamNone \<Rightarrow> Inl (RenderError ''Expected required argument <sam-file>'')
      | SamPath p \<Rightarrow> read_model ext sam_file
      | SamModel m \<Rightarrow> asdict ext m
      | SamStream f \<Rightarrow> read_model ext sam_file
      | SamTuple \<Rightarrow> Inl (UnboundLocalError ''model_data'')
      | SamOther x \<Rightarrow> FrameModel ext x
      | SamDict d \<Rightarrow> Inr d)"

fun truthy :: "pyval cfg \<Rightarrow> bool" where
  "truthy (Leaf PyNone) = False"
| "truthy (Leaf (PyBool b)) = b"
| "truthy (Leaf (PyInt n)) = (n \<noteq> 0)"
| "truthy (Leaf (PyFloat x)) = (x \<noteq> 0)"
| "truthy (Leaf (PyStr s)) = (s \<noteq> [])"
| "truthy (Leaf (PyObj x)) = True"
| "truthy (Sect d) = (d \<noteq> [])"

fun subscript :: "pyval cfg \<Rightarrow> string \<Rightarrow> error + pyval cfg" where
  "subscript (Sect d) k = getitem d k"
| "subscript (Leaf x) k = Inl (TypeError ''object is not subscriptable'')"

datatype artist = FrameArtist model_data nat "pyval cfg" "pyval cfg" canvas

text \<open>What \<^verbatim>\<open>render\<close> does to the world outside, in order.\<close>

datatype event = Printed "pyval cfg" | CanvasBuilt canvas | ArtistBuilt artist | StateAdded | Drawn

type_synonym 'a run = "event list \<times> (error + 'a)"

definition lift :: "error + 'a \<Rightarrow> 'a run" where
  "lift r = ([], r)"

definition emit :: "event list \<Rightarrow> 'a \<Rightarrow> 'a run" where
  "emit es x = (es, Inr x)"

definition then_do :: "'a run \<Rightarrow> ('a \<Rightarrow> 'b run) \<Rightarrow> 'b run" where
  "then_do m f =
     (case m of
        (es, Inl e) \<Rightarrow> (es, Inl e)
      | (es, Inr x) \<Rightarrow> (case f x of (es', r) \<Rightarrow> (es @ es', r)))"

fun canvas_events :: "canvas \<Rightarrow> event list" where
  "canvas_events (Given name) = []"
| "canvas_events c = [CanvasBuilt c]"

text \<open>
  Lines 222 to 226: the keyword arguments of \<^verbatim>\<open>FrameArtist\<close> are evaluated in order, then
  the arguments of \<^verbatim>\<open>_create_canvas\<close>, then the canvas is made, then the artist.
\<close>

definition make_artist :: "model_data \<Rightarrow> nat \<Rightarrow> pyval cfg \<Rightarrow> pyval dict \<Rightarrow> artist run" where
  "make_artist model_data ndf canvas config =
     then_do (lift (getitem config ''artist_config'')) (\<lambda>artist_config.
     then_do (lift (getitem config ''model_config'')) (\<lambda>model_config.
     then_do (lift (if truthy canvas then Inr canvas
                    else bindE (getitem config ''canvas_config'') (\<lambda>cc. subscript cc ''type''))) (\<lambda>name.
     then_do (lift (getitem config ''canvas_config'')) (\<lambda>canvas_config.
     then_do (lift (create_canvas name canvas_config)) (\<lambda>cv.
       (let a = FrameArtist model_data ndf artist_config model_config cv
        in emit (canvas_events cv @ [ArtistBuilt a]) a))))))"

text \<open>
  Lines 232 to 248. \<^verbatim>\<open>cases\<close> is bound nowhere, so a model with a \<^verbatim>\<open>"Displacements"\<close> entry
  runs into \<^verbatim>\<open>NameError\<close>.
\<close>

definition add_states :: "pyval \<Rightarrow> model_data \<Rightarrow> pyval dict \<Rightarrow> unit run" where
  "add_states res_file model_data config =
     then_do
       (if res_file \<noteq> PyNone
        then then_do (lift (getitem config ''scale'')) (\<lambda>scale.
             then_do (lift (getitem config ''mode_num'')) (\<lambda>only.
             then_do (lift (getitem config ''state_config'')) (\<lambda>state_config.
               (case state_config of
                  Sect d \<Rightarrow> emit [StateAdded] ()
                | Leaf x \<Rightarrow> lift (Inl (TypeError ''argument after ** must be a mapping''))))))
        else then_do (lift (getitem config ''displ'')) (\<lambda>displ. emit [] ()))
       (\<lambda>u. if Displacements model_data then lift (Inl (NameError ''cases'')) else emit [Drawn] ())"

definition render ::
  "env \<Rightarrow> sam_file \<Rightarrow> pyval \<Rightarrow> nat \<Rightarrow> pyval cfg \<Rightarrow> string list option \<Rightarrow> string list option \<Rightarrow>
   bool \<Rightarrow> pyval \<Rightarrow> string list option \<Rightarrow> string list option \<Rightarrow> pyval dict \<Rightarrow> artist run" where
  "render ext sam_file res_file ndf canvas show hide verbose vertical displaced reference opts =
     (if sam_file = SamNone
      then lift (Inl (RenderError ''Expected required argument <sam-file>''))
      else
        then_do (lift (load_model ext sam_file)) (\<lambda>model_data.
        then_do (lift (render_config (Config ext) model_data vertical opts)) (\<lambda>config.
        then_do (lift (render_directives (resolve ext) show hide displaced reference
                         \<lparr>settings = config, sets = [], calls = []\<rparr>)) (\<lambda>st.
        then_do (if verbose
                 then then_do (lift (getitem (settings st) ''artist_config'')) (\<lambda>ac. emit [Printed ac] ())
                 else emit [] ()) (\<lambda>u.
        then_do (make_artist model_data ndf canvas (settings st)) (\<lambda>artist.
        then_do (add_states res_file model_data (settings st)) (\<lambda>u. emit [] artist)))))))"

section \<open>Reading a run of the directive phase\<close>

text \<open>The calls one block makes for its list: one exclusive call per entry, all with the same set.\<close>

definition block_calls :: "string \<Rightarrow> action \<Rightarrow> nat \<Rightarrow> string list \<Rightarrow> call list" where
  "block_calls sketch what p args = map (\<lambda>arg. Call (sketch @ '':'' @ arg) what True (Some p)) args"



section \<open>A concrete run\<close>

text \<open>
  Defaults with the sections \<^verbatim>\<open>render\<close> reads, the resolver of the spec, and readers that are
  not reached when the model is handed over as a dict.
\<close>

definition example_env :: env where
  "example_env =
     \<lparr>Config = [(''artist_config'', Sect [(''reference:fiber'', Leaf PyNone)]),
                (''model_config'', Sect []),
                (''canvas_config'', Sect [(''type'', Leaf (PyStr ''gltf''))]),
                (''displ'', Leaf PyNone)],
      resolve = sketch_show,
      read_model = (\<lambda>f. Inl (ExternalError ''read_model'')),
      asdict = (\<lambda>m. Inl (ExternalError ''asdict'')),
      FrameModel = (\<lambda>x. Inl (ExternalError ''FrameModel''))\<rparr>"

definition example_settings :: "pyval dict" where
  "example_settings =
     [(''artist_config'', Sect [(''reference:fiber'', Leaf (PyBool False)), (''vertical'', Leaf (PyInt 2)),
                                 (''reference'', Leaf (PyBool True)), (''reference:node'', Leaf (PyBool True))]),
      (''model_config'', Sect []),
      (''canvas_config'', Sect [(''type'', Leaf (PyStr ''gltf''))]),
      (''displ'', Leaf PyNone)]"

definition example_artist :: artist where
  "example_artist =
     FrameArtist \<lparr>RendererConfiguration = None, Displacements = False\<rparr> 6
       (Sect [(''reference:fiber'', Leaf (PyBool False)), (''vertical'', Leaf (PyInt 2)),
              (''reference'', Leaf (PyBool True)), (''reference:node'', Leaf (PyBool True))])
       (Sect []) (GltfLibCanvas (Sect [(''type'', Leaf (PyStr ''gltf''))]))"

section \<open>Properties of the merge\<close>

lemma update_same: "map_of al k = Some v \<Longrightarrow> AList.update k v al = al"
  by (induction al) auto

lemma absorbs_fixed: "absorbs opts conf \<Longrightarrow> apply_config conf opts = opts"
proof (induction conf opts rule: apply_config.induct)
  case (1 opts)
  then show ?case by simp
next
  case (2 k v conf opts)
  from "2.prems" obtain d where d: "map_of opts k = Some (Sect d)" "absorbs d v" "absorbs opts conf"
    by (auto split: option.splits cfg.splits)
  from "2.IH"(1)[OF d(1) refl d(2)] have "apply_config v d = d" .
  with d(1) have u: "AList.update k (case map_of opts k of Some (Sect d) \<Rightarrow> Sect (apply_config v d) | _ \<Rightarrow> Sect v) opts = opts"
    by (simp add: update_same)
  from "2.IH"(2) d(3) u show ?case by simp
next
  case (3 k x conf opts)
  then show ?case by (simp add: update_same)
qed

lemma absorbs_skip: "k \<notin> fst ` set conf \<Longrightarrow> absorbs ((k, v) # opts) conf = absorbs opts conf"
  by (induction opts conf rule: absorbs.induct) auto

lemma absorbs_self: "is_dict conf \<Longrightarrow> absorbs conf conf"
  by (induction conf rule: is_dict.induct) (auto simp: absorbs_skip)

lemma apply_config_other: "k \<notin> fst ` set conf \<Longrightarrow> map_of (apply_config conf opts) k = map_of opts k"
  by (induction conf opts rule: apply_config.induct) (auto simp: update_conv')

lemma absorbs_apply: "is_dict conf \<Longrightarrow> absorbs (apply_config conf opts) conf"
proof (induction conf opts rule: apply_config.induct)
  case (1 opts)
  then show ?case by simp
next
  case (2 k v conf opts)
  let ?w = "case map_of opts k of Some (Sect d) \<Rightarrow> Sect (apply_config v d) | _ \<Rightarrow> Sect v"
  from "2.prems" have k: "k \<notin> fst ` set conf" and dv: "is_dict v" and dc: "is_dict conf" by auto
  have look: "map_of (apply_config conf (AList.update k ?w opts)) k = Some ?w"
    by (simp add: apply_config_other[OF k] update_conv')
  have "\<exists>d. ?w = Sect d \<and> absorbs d v"
  proof (cases "map_of opts k")
    case None
    then show ?thesis using absorbs_self[OF dv] by simp
  next
    case (Some c)
    show ?thesis
    proof (cases c)
      case (Leaf x)
      with Some show ?thesis using absorbs_self[OF dv] by simp
    next
      case (Sect d)
      with Some "2.IH"(1)[OF _ _ dv] show ?thesis by simp
    qed
  qed
  then obtain d where w: "?w = Sect d" "absorbs d v" by blast
  from "2.IH"(2)[OF dc] have rest: "absorbs (apply_config conf (AList.update k ?w opts)) conf" .
  show ?case using look w rest by simp
next
  case (3 k x conf opts)
  then show ?case by (simp add: apply_config_other update_conv')
qed

text \<open>
  C4. The merge is idempotent: merging a source \<open>S\<close> into the result of merging \<open>S\<close> into
  \<open>D\<close> changes nothing, for every destination \<open>D\<close> and every source \<open>S\<close> that is a dict
  (each key once at every level). In the argument order of \<open>apply_config\<close>:
  \<open>merge(merge(D,S),S) = merge(D,S)\<close>.
\<close>

theorem apply_config_idempotent:
  "is_dict S \<Longrightarrow> apply_config S (apply_config S D) = apply_config S D"
  by (rule absorbs_fixed[OF absorbs_apply])

theorem apply_config_idempotent_witness:
  "is_dict [(''artist'', Sect [(''scale'', Leaf (PyFloat 1.5))]), (''displ'', Leaf PyNone)]
   \<and> apply_config [(''artist'', Sect [(''scale'', Leaf (PyFloat 1.5))]), (''displ'', Leaf PyNone)]
       (apply_config [(''artist'', Sect [(''scale'', Leaf (PyFloat 1.5))]), (''displ'', Leaf PyNone)]
          [(''artist'', Sect [(''vertical'', Leaf (PyInt 2))])])
     = [(''artist'', Sect [(''vertical'', Leaf (PyInt 2)), (''scale'', Leaf (PyFloat 1.5))]),
        (''displ'', Leaf PyNone)]"
  using apply_config_idempotent
    [of "[(''artist'', Sect [(''scale'', Leaf (PyFloat 1.5))]), (''displ'', Leaf PyNone)]"
        "[(''artist'', Sect [(''vertical'', Leaf (PyInt 2))])]"]
  by simp

section \<open>The settings value of a render call\<close>

lemma merge_one:
  "map_of defaults k = Some (Sect a) \<Longrightarrow>
     apply_config [(k, Sect [(j, Leaf e)])] defaults = AList.update k (Sect (AList.update j (Leaf e) a)) defaults"
  by simp

text \<open>
  The scenario of the spec: defaults with \<open>vertical = 2\<close> in the artist section, an empty
  embedded configuration and the override \<open>scale = 1.5\<close> give the artist section
  \<open>{vertical: 2, scale: 1.5}\<close>.
\<close>

lemma render_config_example:
  "render_config [(''artist_config'', Sect [(''vertical'', Leaf (PyInt 2))])]
     \<lparr>RendererConfiguration = Some [], Displacements = False\<rparr> (PyInt 2)
     [(''artist_config'', Sect [(''scale'', Leaf (PyFloat 1.5))])]
   = Inr [(''artist_config'', Sect [(''vertical'', Leaf (PyInt 2)), (''scale'', Leaf (PyFloat 1.5))])]"
  by (simp add: render_config_def)

text \<open>
  C1. The layering is defaults, then the embedded configuration, then the overrides, and the
  comment at lines 155 to 157 gives the priorities as \<open>defaults < file configs < kwds\<close>. Line
  191 writes the \<^verbatim>\<open>vertical\<close> parameter into the artist section after the embedded
  configuration has been merged, whether or not the caller passed it. So when the embedded
  configuration sets \<open>artist_config.vertical\<close> and the caller passes no option at all, the
  value of the embedded layer is lost: the settings value holds the \<^verbatim>\<open>vertical\<close> parameter
  (2 when the caller left it out), whatever the embedded value was.
\<close>

theorem render_config_vertical_beats_embedded:
  assumes "map_of defaults ''artist_config'' = Some (Sect a)"
  shows "render_config defaults
           \<lparr>RendererConfiguration = Some [(''artist_config'', Sect [(''vertical'', Leaf embedded)])],
            Displacements = d\<rparr> vertical []
         = Inr (AList.update ''artist_config'' (Sect (AList.update ''vertical'' (Leaf vertical) a)) defaults)"
proof -
  let ?U = "AList.update ''artist_config'' (Sect (AList.update ''vertical'' (Leaf embedded) a)) defaults"
  have m: "apply_config [(''artist_config'', Sect [(''vertical'', Leaf embedded)])] defaults = ?U"
    by (rule merge_one[OF assms])
  have l: "map_of ?U ''artist_config'' = Some (Sect (AList.update ''vertical'' (Leaf embedded) a))"
    by (simp only: update_conv' fun_upd_same)
  show ?thesis
    unfolding render_config_def
    by (simp only: m l Let_def option.case cfg.case apply_config.simps(1) update_last
          model_data.simps)
qed

theorem render_config_vertical_beats_embedded_witness:
  "map_of [(''artist_config'', Sect [])] ''artist_config'' = Some (Sect [])
   \<and> render_config [(''artist_config'', Sect [])]
           \<lparr>RendererConfiguration = Some [(''artist_config'', Sect [(''vertical'', Leaf (PyInt 3))])],
            Displacements = False\<rparr> (PyInt 2) []
         = Inr [(''artist_config'', Sect [(''vertical'', Leaf (PyInt 2))])]"
proof -
  have h: "map_of [(''artist_config'', Sect [])] ''artist_config'' = Some (Sect [])" by simp
  from render_config_vertical_beats_embedded[OF h, of "PyInt 3" False "PyInt 2"] h
  show ?thesis by simp
qed

section \<open>The directive phase\<close>

lemma bindE_Inr: "bindE m f = Inr y \<Longrightarrow> \<exists>x. m = Inr x \<and> f x = Inr y"
  by (cases m) (simp_all add: bindE_def)

lemma call_sketch_show_effect:
  "call_sketch_show rs key what excl p st = Inr st' \<Longrightarrow>
     calls st' = calls st @ [Call key what excl p] \<and> length (sets st') = length (sets st)"
  by (auto simp: call_sketch_show_def split: sum.splits prod.splits option.splits)

lemma show_each_effect:
  "show_each rs sketch what p args st = Inr st' \<Longrightarrow>
     calls st' = calls st @ block_calls sketch what p args \<and> length (sets st') = length (sets st)"
proof (induction args arbitrary: st)
  case Nil
  then show ?case by (simp add: block_calls_def)
next
  case (Cons arg args)
  from Cons.prems obtain st1 where
    1: "call_sketch_show rs (sketch @ '':'' @ arg) what True (Some p) st = Inr st1" and
    2: "show_each rs sketch what p args st1 = Inr st'"
    by (auto split: sum.splits)
  from call_sketch_show_effect[OF 1] Cons.IH[OF 2] show ?case
    by (simp add: block_calls_def)
qed

lemma reference_block_effect:
  "reference_block rs reference st = Inr st' \<Longrightarrow>
     calls st' = calls st @ (case reference of None \<Rightarrow> []
        | Some args \<Rightarrow> Call ''reference'' Show False None # block_calls ''reference'' Show (length (sets st)) args)
     \<and> length (sets st') = length (sets st) + (if reference = None then 0 else 1)"
proof (cases reference)
  case None
  then show "reference_block rs reference st = Inr st' \<Longrightarrow> ?thesis" by (simp add: reference_block_def)
next
  case (Some args)
  assume "reference_block rs reference st = Inr st'"
  with Some obtain st2 where
    1: "call_sketch_show rs ''reference'' Show False None (st\<lparr>sets := sets st @ [{}]\<rparr>) = Inr st2" and
    2: "show_each rs ''reference'' Show (length (sets st)) args st2 = Inr st'"
    by (auto simp: reference_block_def new_set_def dest: bindE_Inr)
  from call_sketch_show_effect[OF 1] show_each_effect[OF 2] Some show ?thesis by simp
qed

lemma displaced_block_effect:
  "displaced_block rs displaced st = Inr st' \<Longrightarrow>
     calls st' = calls st @ (case displaced of None \<Rightarrow> []
        | Some args \<Rightarrow> block_calls ''displaced'' Show (length (sets st)) args)
     \<and> length (sets st') = length (sets st) + (if displaced = None then 0 else 1)"
  by (cases displaced) (auto simp: displaced_block_def new_set_def dest: show_each_effect)

lemma hide_block_effect:
  "hide_block rs hide st = Inr st' \<Longrightarrow>
     calls st' = calls st @ (case hide of None \<Rightarrow> []
        | Some args \<Rightarrow> block_calls ''reference'' Hide (length (sets st)) args)
     \<and> length (sets st') = length (sets st) + (if hide = None then 0 else 1)"
  by (cases hide) (auto simp: hide_block_def new_set_def dest: show_each_effect)

lemma render_directives_effect:
  assumes "render_directives rs show hide displaced reference st = Inr st'"
    and "r = (if show \<noteq> None \<and> reference = None \<and> displaced = None then show else reference)"
    and "n1 = length (sets st) + (if r = None then 0 else 1)"
    and "n2 = n1 + (if displaced = None then 0 else 1)"
  shows "calls st' = calls st
           @ (case r of None \<Rightarrow> []
              | Some args \<Rightarrow> Call ''reference'' Show False None # block_calls ''reference'' Show (length (sets st)) args)
           @ (case displaced of None \<Rightarrow> [] | Some args \<Rightarrow> block_calls ''displaced'' Show n1 args)
           @ (case hide of None \<Rightarrow> [] | Some args \<Rightarrow> block_calls ''reference'' Hide n2 args)"
    and "length (sets st') = n2 + (if hide = None then 0 else 1)"
proof -
  from assms(1,2) obtain st1 st2 where
    1: "reference_block rs r st = Inr st1" and
    2: "displaced_block rs displaced st1 = Inr st2" and
    3: "hide_block rs hide st2 = Inr st'"
    unfolding render_directives_def Let_def by (auto dest!: bindE_Inr)
  note e1 = reference_block_effect[OF 1] and e2 = displaced_block_effect[OF 2]
    and e3 = hide_block_effect[OF 3]
  from e1 assms(3) have l1: "length (sets st1) = n1" by simp
  from e2 l1 assms(4) have l2: "length (sets st2) = n2" by simp
  from e3 l2 show "length (sets st') = n2 + (if hide = None then 0 else 1)" by simp
  from e1 e2 e3 show "calls st' = calls st
           @ (case r of None \<Rightarrow> []
              | Some args \<Rightarrow> Call ''reference'' Show False None # block_calls ''reference'' Show (length (sets st)) args)
           @ (case displaced of None \<Rightarrow> [] | Some args \<Rightarrow> block_calls ''displaced'' Show n1 args)
           @ (case hide of None \<Rightarrow> [] | Some args \<Rightarrow> block_calls ''reference'' Hide n2 args)"
    unfolding l1 l2 by simp
qed









section \<open>The resolver of the spec\<close>

text \<open>
  The batch \<^verbatim>\<open>render\<close> makes for \<^verbatim>\<open>reference = ["node", "element"]\<close> alone, whatever the
  resolver: the sketch-level call, then the two exclusive calls with one set.
\<close>

lemma render_reference_batch:
  assumes "render_directives rs None None None (Some [''node'', ''element''])
             \<lparr>settings = config, sets = [], calls = []\<rparr> = Inr st"
  shows "calls st = [Call ''reference'' Show False None,
                     Call ''reference:node'' Show True (Some 0),
                     Call ''reference:element'' Show True (Some 0)]"
  using render_directives_effect(1)[OF assms refl refl refl] by (simp add: block_calls_def)

lemma map_of_map_cond:
  "map_of (map (\<lambda>(k, v). if c k v then (k, w) else (k, v)) xs) k'
     = map_option (\<lambda>v. if c k' v then w else v) (map_of xs k')"
  by (induction xs) auto

lemma sibling_of_simps:
  "sibling_of ''reference'' key ''reference'' = False"
  "sibling_of ''reference'' key (''reference:'' @ a) = (''reference:'' @ a \<noteq> key)"
  by (auto simp: sibling_of_def parse_key_def)

lemma sibling_of_self: "sibling_of sketch key key = False"
  by (simp add: sibling_of_def)

text \<open>
  C3. In an artist section where the sketch \<open>reference\<close> has the attribute \<open>fiber\<close> (and
  \<open>node\<close> and \<open>element\<close>, in any state or not yet there), the non-exclusive call showing
  \<open>reference\<close>, then the exclusive call showing \<open>reference:node\<close> with the preserve set
  \<open>P\<close>, then the exclusive call showing \<open>reference:element\<close> with the same set, leave node
  shown, element shown and fiber hidden. \<open>P\<close> is the set of the batch, which has not yet
  protected \<open>reference:fiber\<close>; the orchestrator starts it empty.
\<close>

theorem sketch_show_exclusive_preserve:
  assumes "map_of items ''reference:fiber'' = Some v"
    and "''reference:fiber'' \<notin> P"
  shows "\<exists>c P'.
           bindE (sketch_show (Sect items) ''reference'' Show False {}) (\<lambda>(c1, u).
           bindE (sketch_show c1 ''reference:node'' Show True P) (\<lambda>(c2, P2).
                  sketch_show c2 ''reference:element'' Show True P2)) = Inr (c, P')
         \<and> flag_of c ''reference:node'' = Shown
         \<and> flag_of c ''reference:element'' = Shown
         \<and> flag_of c ''reference:fiber'' = Hidden"
  using assms sibling_of_simps(2)[of "''reference:node''" "''fiber''"]
     sibling_of_simps(2)[of "''reference:element''" "''fiber''"]
     sibling_of_simps(2)[of "''reference:element''" "''node''"]
     sibling_of_simps(2)[of "''reference:node''" "''element''"]
  by (simp add: sketch_show_def bindE_def parse_key_def flag_of_def map_of_map_cond
        update_conv' has_state_def sibling_of_simps(1) sibling_of_self)

lemma three_calls_example:
  "bindE (sketch_show (Sect [(''reference:node'', Leaf PyNone), (''reference:element'', Leaf PyNone),
                                 (''reference:fiber'', Leaf PyNone)]) ''reference'' Show False {}) (\<lambda>(c1, u).
      bindE (sketch_show c1 ''reference:node'' Show True {}) (\<lambda>(c2, P2).
             sketch_show c2 ''reference:element'' Show True P2))
     = Inr (Sect [(''reference:node'', Leaf (PyBool True)), (''reference:element'', Leaf (PyBool True)),
                  (''reference:fiber'', Leaf (PyBool False)), (''reference'', Leaf (PyBool True))],
            {''reference:element'', ''reference:node''})"
  by (simp add: sketch_show_def bindE_def parse_key_def sibling_of_def has_state_def)

theorem sketch_show_exclusive_preserve_witness:
  "map_of [(''reference:node'', Leaf PyNone), (''reference:element'', Leaf PyNone),
           (''reference:fiber'', Leaf PyNone)] ''reference:fiber'' = Some (Leaf PyNone)
   \<and> ''reference:fiber'' \<notin> ({} :: string set)
   \<and> (\<exists>c P'. bindE (sketch_show (Sect [(''reference:node'', Leaf PyNone), (''reference:element'', Leaf PyNone),
                                 (''reference:fiber'', Leaf PyNone)]) ''reference'' Show False {}) (\<lambda>(c1, u).
      bindE (sketch_show c1 ''reference:node'' Show True {}) (\<lambda>(c2, P2).
             sketch_show c2 ''reference:element'' Show True P2)) = Inr (c, P')
         \<and> flag_of c ''reference:node'' = Shown
         \<and> flag_of c ''reference:element'' = Shown
         \<and> flag_of c ''reference:fiber'' = Hidden)
   \<and> flag_of (Sect [(''reference:node'', Leaf (PyBool True)), (''reference:element'', Leaf (PyBool True)),
                  (''reference:fiber'', Leaf (PyBool False)), (''reference'', Leaf (PyBool True))])
        ''reference:fiber'' = Hidden"
proof -
  have h1: "map_of [(''reference:node'', Leaf PyNone), (''reference:element'', Leaf PyNone),
           (''reference:fiber'', Leaf PyNone)] ''reference:fiber'' = Some (Leaf PyNone)" by simp
  have h2: "''reference:fiber'' \<notin> ({} :: string set)" by simp
  have h3: "flag_of (Sect [(''reference:node'', Leaf (PyBool True)), (''reference:element'', Leaf (PyBool True)),
                  (''reference:fiber'', Leaf (PyBool False)), (''reference'', Leaf (PyBool True))])
        ''reference:fiber'' = Hidden" by (simp add: flag_of_def)
  from h1 h2 sketch_show_exclusive_preserve[OF h1 h2] h3 show ?thesis by (intro conjI)
qed

section \<open>The whole call\<close>

lemma example_config:
  "render_config (Config example_env) \<lparr>RendererConfiguration = None, Displacements = False\<rparr> (PyInt 2) []
   = Inr [(''artist_config'', Sect [(''reference:fiber'', Leaf PyNone), (''vertical'', Leaf (PyInt 2))]),
          (''model_config'', Sect []),
          (''canvas_config'', Sect [(''type'', Leaf (PyStr ''gltf''))]),
          (''displ'', Leaf PyNone)]"
  by (simp add: render_config_def example_env_def)

lemma example_directives:
  "render_directives (resolve example_env) None None None (Some [''node''])
     \<lparr>settings = [(''artist_config'', Sect [(''reference:fiber'', Leaf PyNone), (''vertical'', Leaf (PyInt 2))]),
                  (''model_config'', Sect []),
                  (''canvas_config'', Sect [(''type'', Leaf (PyStr ''gltf''))]),
                  (''displ'', Leaf PyNone)], sets = [], calls = []\<rparr>
   = Inr \<lparr>settings = example_settings, sets = [{''reference:node''}],
          calls = [Call ''reference'' Show False None, Call ''reference:node'' Show True (Some 0)]\<rparr>"
  by (simp add: render_directives_def reference_block_def displaced_block_def hide_block_def
        new_set_def bindE_def call_sketch_show_def getitem_def sketch_show_def parse_key_def
        sibling_of_def has_state_def example_env_def example_settings_def)

lemma example_make_artist:
  "make_artist \<lparr>RendererConfiguration = None, Displacements = False\<rparr> 6 (Leaf PyNone) example_settings
   = ([CanvasBuilt (GltfLibCanvas (Sect [(''type'', Leaf (PyStr ''gltf''))])), ArtistBuilt example_artist],
      Inr example_artist)"
  by (simp add: make_artist_def then_do_def lift_def emit_def getitem_def bindE_def create_canvas_def
        example_settings_def example_artist_def Let_def)

lemma example_add_states:
  "add_states PyNone \<lparr>RendererConfiguration = None, Displacements = False\<rparr> example_settings
   = ([Drawn], Inr ())"
  by (simp add: add_states_def then_do_def lift_def emit_def getitem_def example_settings_def)

lemma render_example:
  "render example_env (SamDict \<lparr>RendererConfiguration = None, Displacements = False\<rparr>) PyNone 6
      (Leaf PyNone) None None False (PyInt 2) None (Some [''node'']) []
   = ([CanvasBuilt (GltfLibCanvas (Sect [(''type'', Leaf (PyStr ''gltf''))])),
       ArtistBuilt example_artist, Drawn], Inr example_artist)"
  by (simp add: render_def load_model_def example_config example_directives example_make_artist
        example_add_states then_do_def lift_def emit_def)

lemma render_directives_show:
  "render_directives rs show hide None None st = render_directives rs None hide None show st"
  "reference \<noteq> None \<or> displaced \<noteq> None \<Longrightarrow>
     render_directives rs show hide displaced reference st
       = render_directives rs None hide displaced reference st"
  by (auto simp: render_directives_def)

text \<open>
  C9. With neither reference nor displaced given, the show list is treated as the reference
  list: the call returns what the call with the list passed as reference returns. With
  reference or displaced given, the show argument changes nothing.
\<close>

theorem render_show_as_reference:
  "render ext sam_file res_file ndf canvas show hide verbose vertical None None opts
     = render ext sam_file res_file ndf canvas None hide verbose vertical None show opts
   \<and> (reference \<noteq> None \<or> displaced \<noteq> None \<longrightarrow>
        render ext sam_file res_file ndf canvas show hide verbose vertical displaced reference opts
          = render ext sam_file res_file ndf canvas None hide verbose vertical displaced reference opts)"
proof (intro conjI impI)
  show "render ext sam_file res_file ndf canvas show hide verbose vertical None None opts
     = render ext sam_file res_file ndf canvas None hide verbose vertical None show opts"
    unfolding render_def by (simp only: render_directives_show(1)[of _ "show"])
next
  assume "reference \<noteq> None \<or> displaced \<noteq> None"
  then have d: "\<And>rs st. render_directives rs show hide displaced reference st
      = render_directives rs None hide displaced reference st"
    by (rule render_directives_show(2))
  show "render ext sam_file res_file ndf canvas show hide verbose vertical displaced reference opts
          = render ext sam_file res_file ndf canvas None hide verbose vertical displaced reference opts"
    unfolding render_def by (simp only: d)
qed

theorem render_show_as_reference_witness:
  "Some [''node''] \<noteq> (None :: string list option)
   \<and> render example_env (SamDict \<lparr>RendererConfiguration = None, Displacements = False\<rparr>) PyNone 6
        (Leaf PyNone) (Some [''fiber'']) None False (PyInt 2) None (Some [''node'']) []
     = ([CanvasBuilt (GltfLibCanvas (Sect [(''type'', Leaf (PyStr ''gltf''))])),
         ArtistBuilt example_artist, Drawn], Inr example_artist)
   \<and> render example_env (SamDict \<lparr>RendererConfiguration = None, Displacements = False\<rparr>) PyNone 6
        (Leaf PyNone) (Some [''node'']) None False (PyInt 2) None None []
     = ([CanvasBuilt (GltfLibCanvas (Sect [(''type'', Leaf (PyStr ''gltf''))])),
         ArtistBuilt example_artist, Drawn], Inr example_artist)"
  using render_show_as_reference[of example_env
      "SamDict \<lparr>RendererConfiguration = None, Displacements = False\<rparr>" PyNone 6 "Leaf PyNone"
      "Some [''fiber'']" None False "PyInt 2" "[]" "Some [''node'']" None]
    render_show_as_reference[of example_env
      "SamDict \<lparr>RendererConfiguration = None, Displacements = False\<rparr>" PyNone 6 "Leaf PyNone"
      "Some [''node'']" None False "PyInt 2" "[]" None None]
    render_example
  by simp

text \<open>
  C5. A render call with no model source raises the error of a missing input (in the module,
  \<^verbatim>\<open>RenderError("Expected required argument <sam-file>")\<close>) and has made no canvas and no
  artist by then: the run has no event.
\<close>

theorem render_missing_input:
  "render ext SamNone res_file ndf canvas show hide verbose vertical displaced reference opts
     = ([], Inl (RenderError ''Expected required argument <sam-file>''))"
  by (simp add: render_def lift_def)

section \<open>Canvas selection and serving\<close>

text \<open>
  C6. A string that is none of \<open>matplotlib\<close>, \<open>plotly\<close>, \<open>gltf\<close>, \<open>trimesh\<close> is rejected with
  the error of an unknown backend (in the module, \<^verbatim>\<open>ValueError\<close>), whose message ends with
  the string itself; each of the four names gives its canvas.
\<close>

theorem create_canvas_unknown_name:
  "(s \<notin> {''matplotlib'', ''plotly'', ''gltf'', ''trimesh''} \<longrightarrow>
      create_canvas (Leaf (PyStr s)) config = Inl (ValueError (''Unknown canvas name '' @ s)))
   \<and> create_canvas (Leaf (PyStr ''gltf'')) config = Inr (GltfLibCanvas config)
   \<and> create_canvas (Leaf (PyStr ''plotly'')) config = Inr (PlotlyCanvas config)
   \<and> create_canvas (Leaf (PyStr ''matplotlib'')) config = Inr (MatplotlibCanvas config)
   \<and> create_canvas (Leaf (PyStr ''trimesh'')) config = Inr (TrimeshCanvas config)"
  by (simp add: create_canvas_def)

theorem create_canvas_unknown_name_witness:
  "''foo'' \<notin> {''matplotlib'', ''plotly'', ''gltf'', ''trimesh''}
   \<and> create_canvas (Leaf (PyStr ''foo'')) (Leaf PyNone) = Inl (ValueError ''Unknown canvas name foo'')"
  using create_canvas_unknown_name[of "''foo''" "Leaf PyNone"] by simp

text \<open>
  C10. A selector that is neither \<^verbatim>\<open>None\<close> nor a string is returned as it came, with no
  error; \<^verbatim>\<open>None\<close> is treated as the name \<open>gltf\<close>.
\<close>

theorem create_canvas_non_string:
  "(name \<noteq> Leaf PyNone \<and> (\<forall>s. name \<noteq> Leaf (PyStr s)) \<longrightarrow> create_canvas name config = Inr (Given name))
   \<and> create_canvas (Leaf PyNone) config = create_canvas (Leaf (PyStr ''gltf'')) config
   \<and> create_canvas (Leaf PyNone) config = Inr (GltfLibCanvas config)"
  by (auto simp: create_canvas_def split: cfg.splits pyval.splits)

theorem create_canvas_non_string_witness:
  "Leaf (PyObj 0) \<noteq> Leaf PyNone \<and> (\<forall>s. Leaf (PyObj 0) \<noteq> Leaf (PyStr s))
   \<and> create_canvas (Leaf (PyObj 0)) (Leaf PyNone) = Inr (Given (Leaf (PyObj 0)))"
  using create_canvas_non_string[of "Leaf (PyObj 0)" "Leaf PyNone"] by simp




end
